theory Spec2Isabelle
  imports Main
begin

section \<open>The contained type and the ways an operation can end\<close>

text \<open>
  \<^verbatim>\<open>bmstu::optional<T>\<close> is a template: everything it does to a \<open>T\<close> goes through
  \<open>T\<close>'s own special member functions. They are the parameters of the model, gathered
  in a record; \<open>'a\<close> is the set of states of a live \<open>T\<close> object, \<open>'args\<close> the argument
  packs \<open>T\<close> can be constructed from, \<open>'e\<close> the exceptions \<open>T\<close>'s members throw.

  \<^item> a constructor either throws (no object comes to life) or yields the new object;
  \<^item> \<^verbatim>\<open>T{x}\<close> with \<open>x\<close> a \<open>T\<close> is list-initialisation, a member of its own: it is the
    copy constructor for a type with no initializer-list constructor that takes a \<open>T\<close>,
    and that initializer-list constructor, given the one element \<open>x\<close>, for a type that
    has one;
  \<^item> moving also changes the object moved from, so the moving members return its
    moved-from state as well;
  \<^item> an assignment changes its target and may still throw: it returns the target's
    state at its end together with the exception, if any;
  \<^item> \<^verbatim>\<open>x = x\<close> and \<^verbatim>\<open>x = std::move(x)\<close> act on one object only, so they are members of
    their own.
\<close>

record ('a, 'args, 'e) T =
  construct :: "'args \<Rightarrow> 'e + 'a"
  copy_construct :: "'a \<Rightarrow> 'e + 'a"
  list_construct :: "'a \<Rightarrow> 'e + 'a"
  move_construct :: "'a \<Rightarrow> 'a \<times> ('e + 'a)"
  copy_assign :: "'a \<Rightarrow> 'a \<Rightarrow> 'a \<times> 'e option"
  move_assign :: "'a \<Rightarrow> 'a \<Rightarrow> ('a \<times> 'a) \<times> 'e option"
  copy_assign_self :: "'a \<Rightarrow> 'a \<times> 'e option"
  move_assign_self :: "'a \<Rightarrow> 'a \<times> 'e option"

text \<open>
  An operation that does not return ends in one of four ways: the container's own
  exception, an exception of \<open>T\<close> passing through, \<^verbatim>\<open>std::terminate\<close> (an exception
  reaching a \<^verbatim>\<open>noexcept\<close> boundary), or undefined behaviour (a member of \<open>T\<close> called on
  storage that holds no live \<open>T\<close>).
\<close>

datatype 'e abrupt =
    bad_optional_access
  | T_exception 'e
  | std_terminate
  | undefined_behavior

section \<open>The container and the objects in memory\<close>

text \<open>
  The two data members, \<^verbatim>\<open>data_\<close> and \<^verbatim>\<open>is_initialized_\<close> (a name cannot end in an
  underscore here). \<open>data\<close> is raw storage: \<open>None\<close> when no \<open>T\<close> object lives in it,
  \<open>Some x\<close> when one does, in state \<open>x\<close>. The flag is a separate member: nothing ties it
  to the storage but the code.
\<close>

record 'a optional =
  data :: "'a option"
  is_initialized :: bool

type_synonym addr = nat

text \<open>
  Lifetime events of \<open>T\<close> objects, in the order they happen (what a constructor- and
  destructor-counting contained type observes).
\<close>

datatype 'a lifetime_event = Constructed 'a | Destroyed 'a

record 'a world =
  objs :: "addr \<Rightarrow> 'a optional"
  events :: "'a lifetime_event list"

text \<open>
  \<^verbatim>\<open>reinterpret_cast<pointer>(data_)\<close> of the container at an address: the pointers and
  references the accessors hand out.
\<close>

datatype reference = Data addr

fun container :: "reference \<Rightarrow> addr" where
  "container (Data p) = p"

definition load :: "'a world \<Rightarrow> reference \<Rightarrow> 'a option" where
  "load w r = data (objs w (container r))"

definition store :: "reference \<Rightarrow> 'a \<Rightarrow> 'a world \<Rightarrow> 'a world" where
  "store r x w =
     w\<lparr>objs := (objs w)(container r := (objs w (container r))\<lparr>data := Some x\<rparr>)\<rparr>"

definition set_is_initialized :: "addr \<Rightarrow> bool \<Rightarrow> 'a world \<Rightarrow> 'a world" where
  "set_is_initialized this b w =
     w\<lparr>objs := (objs w)(this := (objs w this)\<lparr>is_initialized := b\<rparr>)\<rparr>"

text \<open>Sequencing: the rest of a function body runs only if the step before returned.\<close>

definition and_then ::
  "'w \<times> ('x + 'r) \<Rightarrow> ('r \<Rightarrow> 'w \<Rightarrow> 'w \<times> ('x + 's)) \<Rightarrow> 'w \<times> ('x + 's)" where
  "and_then m f = (case m of (w, Inl e) \<Rightarrow> (w, Inl e) | (w, Inr r) \<Rightarrow> f r w)"

definition thrown :: "'e option \<Rightarrow> 'e abrupt + unit" where
  "thrown exn = (case exn of None \<Rightarrow> Inr () | Some e \<Rightarrow> Inl (T_exception e))"

text \<open>
  A function declared \<^verbatim>\<open>noexcept\<close>: an exception that would leave it calls
  \<^verbatim>\<open>std::terminate\<close> instead.
\<close>

definition noexcept :: "'w \<times> ('e abrupt + 'r) \<Rightarrow> 'w \<times> ('e abrupt + 'r)" where
  "noexcept m =
     (case m of
        (w, Inl bad_optional_access) \<Rightarrow> (w, Inl std_terminate)
      | (w, Inl (T_exception e)) \<Rightarrow> (w, Inl std_terminate)
      | (w, r) \<Rightarrow> (w, r))"

subsection \<open>Members of T applied in place\<close>

text \<open>
  \<^verbatim>\<open>new(data_) T(...)\<close>: if the constructor throws nothing is written; otherwise the new
  object's lifetime begins in \<open>data\<close> (whatever was there before is overwritten without
  a destructor call).
\<close>

definition placement_new :: "addr \<Rightarrow> 'e + 'a \<Rightarrow> 'a world \<Rightarrow> 'a world \<times> ('e abrupt + unit)" where
  "placement_new this r w =
     (case r of
        Inl e \<Rightarrow> (w, Inl (T_exception e))
      | Inr v \<Rightarrow>
          (w\<lparr>objs := (objs w)(this := (objs w this)\<lparr>data := Some v\<rparr>),
             events := events w @ [Constructed v]\<rparr>, Inr ()))"

text \<open>\<^verbatim>\<open>new(data_) value_type(y)\<close> with \<open>y\<close> the object a reference designates.\<close>

definition placement_copy ::
  "('a, 'args, 'e) T \<Rightarrow> addr \<Rightarrow> reference \<Rightarrow> 'a world \<Rightarrow> 'a world \<times> ('e abrupt + unit)" where
  "placement_copy T this src w =
     (case load w src of
        None \<Rightarrow> (w, Inl undefined_behavior)
      | Some y \<Rightarrow> placement_new this (copy_construct T y) w)"

text \<open>\<^verbatim>\<open>new(data_) value_type(std::move(y))\<close>: the source is left in its moved-from state.\<close>

definition placement_move ::
  "('a, 'args, 'e) T \<Rightarrow> addr \<Rightarrow> reference \<Rightarrow> 'a world \<Rightarrow> 'a world \<times> ('e abrupt + unit)" where
  "placement_move T this src w =
     (case load w src of
        None \<Rightarrow> (w, Inl undefined_behavior)
      | Some y \<Rightarrow>
          (case move_construct T y of
             (y', r) \<Rightarrow> placement_new this r (store src y' w)))"

text \<open>\<^verbatim>\<open>dst = src\<close> on two references to \<open>T\<close>, which may designate the same object.\<close>

definition copy_assign_at ::
  "('a, 'args, 'e) T \<Rightarrow> reference \<Rightarrow> reference \<Rightarrow> 'a world \<Rightarrow> 'a world \<times> ('e abrupt + unit)" where
  "copy_assign_at T dst src w =
     (case (load w dst, load w src) of
        (Some x, Some y) \<Rightarrow>
          (case (if dst = src then copy_assign_self T x else copy_assign T x y) of
             (x', exn) \<Rightarrow> (store dst x' w, thrown exn))
      | _ \<Rightarrow> (w, Inl undefined_behavior))"

text \<open>\<^verbatim>\<open>dst = std::move(src)\<close> on two references to \<open>T\<close>.\<close>

definition move_assign_at ::
  "('a, 'args, 'e) T \<Rightarrow> reference \<Rightarrow> reference \<Rightarrow> 'a world \<Rightarrow> 'a world \<times> ('e abrupt + unit)" where
  "move_assign_at T dst src w =
     (case (load w dst, load w src) of
        (Some x, Some y) \<Rightarrow>
          (if dst = src then
             (case move_assign_self T x of
                (x', exn) \<Rightarrow> (store dst x' w, thrown exn))
           else
             (case move_assign T x y of
                ((x', y'), exn) \<Rightarrow> (store dst x' (store src y' w), thrown exn)))
      | _ \<Rightarrow> (w, Inl undefined_behavior))"

text \<open>
  \<^verbatim>\<open>dst = val\<close> and \<^verbatim>\<open>dst = std::move(val)\<close> with \<open>val\<close> a \<open>T\<close> of the caller's, outside
  any container: it is passed by its state, and what moving leaves in it is the
  caller's business.
\<close>

definition copy_assign_from ::
  "('a, 'args, 'e) T \<Rightarrow> reference \<Rightarrow> 'a \<Rightarrow> 'a world \<Rightarrow> 'a world \<times> ('e abrupt + unit)" where
  "copy_assign_from T dst val w =
     (case load w dst of
        Some x \<Rightarrow> (case copy_assign T x val of (x', exn) \<Rightarrow> (store dst x' w, thrown exn))
      | None \<Rightarrow> (w, Inl undefined_behavior))"

definition move_assign_from ::
  "('a, 'args, 'e) T \<Rightarrow> reference \<Rightarrow> 'a \<Rightarrow> 'a world \<Rightarrow> 'a world \<times> ('e abrupt + unit)" where
  "move_assign_from T dst val w =
     (case load w dst of
        Some x \<Rightarrow>
          (case move_assign T x val of ((x', val'), exn) \<Rightarrow> (store dst x' w, thrown exn))
      | None \<Rightarrow> (w, Inl undefined_behavior))"

text \<open>\<^verbatim>\<open>p->~T()\<close>: ends the lifetime of the object the pointer designates.\<close>

definition destroy_at :: "reference \<Rightarrow> 'a world \<Rightarrow> 'a world \<times> ('e abrupt + unit)" where
  "destroy_at r w =
     (case load w r of
        None \<Rightarrow> (w, Inl undefined_behavior)
      | Some x \<Rightarrow>
          (w\<lparr>objs := (objs w)(container r := (objs w (container r))\<lparr>data := None\<rparr>),
             events := events w @ [Destroyed x]\<rparr>, Inr ()))"

section \<open>The member functions of \<^verbatim>\<open>optional<T>\<close>\<close>

text \<open>
  A member function takes the address \<open>this\<close> of its container and the world, and
  returns the world at its end together with its result or the way it ended abruptly.
  When it throws, the world returned is the one at the throw.
\<close>

subsection \<open>Observers and accessors\<close>

definition has_value :: "addr \<Rightarrow> 'a world \<Rightarrow> bool" where
  "has_value this w = is_initialized (objs w this)"

text \<open>\<^verbatim>\<open>reference operator*() &\<close> and \<^verbatim>\<open>const_reference operator*() const &\<close>.\<close>

definition deref_lvalue :: "addr \<Rightarrow> 'a world \<Rightarrow> 'e abrupt + reference" where
  "deref_lvalue this w = Inr (Data this)"

definition deref_const :: "addr \<Rightarrow> 'a world \<Rightarrow> 'e abrupt + reference" where
  "deref_const this w = Inr (Data this)"

text \<open>\<^verbatim>\<open>pointer operator->()\<close> and \<^verbatim>\<open>const_pointer operator->() const\<close>.\<close>

definition arrow :: "addr \<Rightarrow> 'a world \<Rightarrow> 'e abrupt + reference" where
  "arrow this w = Inr (Data this)"

definition arrow_const :: "addr \<Rightarrow> 'a world \<Rightarrow> 'e abrupt + reference" where
  "arrow_const this w = Inr (Data this)"

text \<open>\<^verbatim>\<open>rvalue_reference operator*() &&\<close>.\<close>

definition deref_rvalue :: "addr \<Rightarrow> 'a world \<Rightarrow> 'e abrupt + reference" where
  "deref_rvalue this w =
     (if \<not> is_initialized (objs w this) then Inl bad_optional_access
      else Inr (Data this))"

text \<open>\<^verbatim>\<open>reference value() &\<close> and \<^verbatim>\<open>const_reference value() const &\<close>.\<close>

definition value_lvalue :: "addr \<Rightarrow> 'a world \<Rightarrow> 'e abrupt + reference" where
  "value_lvalue this w =
     (if \<not> is_initialized (objs w this) then Inl bad_optional_access
      else Inr (Data this))"

definition value_const :: "addr \<Rightarrow> 'a world \<Rightarrow> 'e abrupt + reference" where
  "value_const this w =
     (if \<not> is_initialized (objs w this) then Inl bad_optional_access
      else Inr (Data this))"

subsection \<open>reset, emplace, destructor\<close>

definition reset :: "addr \<Rightarrow> 'a world \<Rightarrow> 'a world \<times> ('e abrupt + unit)" where
  "reset this w =
     (if is_initialized (objs w this) then
        and_then (destroy_at (Data this) w)
          (\<lambda>_ w. (set_is_initialized this False w, Inr ()))
      else (w, Inr ()))"

definition emplace ::
  "('a, 'args, 'e) T \<Rightarrow> addr \<Rightarrow> 'args \<Rightarrow> 'a world \<Rightarrow> 'a world \<times> ('e abrupt + unit)" where
  "emplace T this args w =
     and_then (if is_initialized (objs w this) then reset this w else (w, Inr ()))
       (\<lambda>_ w. placement_new this (construct T args) (set_is_initialized this True w))"

text \<open>\<^verbatim>\<open>~optional()\<close>: the flag is left as it is.\<close>

definition destructor :: "addr \<Rightarrow> 'a world \<Rightarrow> 'a world \<times> ('e abrupt + unit)" where
  "destructor this w =
     (if is_initialized (objs w this) then destroy_at (Data this) w else (w, Inr ()))"

subsection \<open>Constructors\<close>

text \<open>
  \<^verbatim>\<open>optional() = default\<close>. The storage is left as raw bytes and the default member
  initialiser sets \<^verbatim>\<open>is_initialized_ = false\<close>; every other constructor starts from
  this state too, before its body runs.
\<close>

definition optional_default :: "addr \<Rightarrow> 'a world \<Rightarrow> 'a world" where
  "optional_default this w =
     w\<lparr>objs := (objs w)(this := \<lparr>data = None, is_initialized = False\<rparr>)\<rparr>"

text \<open>\<^verbatim>\<open>optional(const optional &other)\<close>.\<close>

definition optional_copy ::
  "('a, 'args, 'e) T \<Rightarrow> addr \<Rightarrow> addr \<Rightarrow> 'a world \<Rightarrow> 'a world \<times> ('e abrupt + unit)" where
  "optional_copy T this other w0 =
     (let w = optional_default this w0 in
      if is_initialized (objs w this) \<and> is_initialized (objs w other) then
        and_then (w, value_const other w) (\<lambda>src w.
        and_then (w, value_lvalue this w) (\<lambda>dst. copy_assign_at T dst src))
      else if \<not> is_initialized (objs w this) \<and> is_initialized (objs w other) then
        and_then (w, value_const other w) (\<lambda>src w.
        and_then (placement_copy T this src w) (\<lambda>_ w.
          (set_is_initialized this True w, Inr ())))
      else if is_initialized (objs w this) \<and> \<not> is_initialized (objs w other) then
        reset this w
      else (w, Inr ()))"

text \<open>\<^verbatim>\<open>optional(optional &&other) noexcept\<close>.\<close>

definition optional_move ::
  "('a, 'args, 'e) T \<Rightarrow> addr \<Rightarrow> addr \<Rightarrow> 'a world \<Rightarrow> 'a world \<times> ('e abrupt + unit)" where
  "optional_move T this other w0 =
     noexcept
      (let w = optional_default this w0 in
       if is_initialized (objs w this) \<and> is_initialized (objs w other) then
         and_then (w, value_lvalue other w) (\<lambda>src w.
         and_then (w, value_lvalue this w) (\<lambda>dst. move_assign_at T dst src))
       else if \<not> is_initialized (objs w this) \<and> is_initialized (objs w other) then
         and_then (w, value_lvalue other w) (\<lambda>src w.
         and_then (placement_move T this src w) (\<lambda>_ w.
           (set_is_initialized this True w, Inr ())))
       else if is_initialized (objs w this) \<and> \<not> is_initialized (objs w other) then
         reset this w
       else (w, Inr ()))"

text \<open>
  \<^verbatim>\<open>explicit optional(const value_type &value)\<close>. The object is built by
  \<^verbatim>\<open>T{value}\<close>, with braces: list-initialisation, where every other path writes
  parentheses and calls the copy or the move constructor.
\<close>

definition optional_of_copy ::
  "('a, 'args, 'e) T \<Rightarrow> addr \<Rightarrow> 'a \<Rightarrow> 'a world \<Rightarrow> 'a world \<times> ('e abrupt + unit)" where
  "optional_of_copy T this val w0 =
     (let w = optional_default this w0 in
      placement_new this (list_construct T val) (set_is_initialized this True w))"

text \<open>\<^verbatim>\<open>explicit optional(value_type &&value)\<close>.\<close>

definition optional_of_move ::
  "('a, 'args, 'e) T \<Rightarrow> addr \<Rightarrow> 'a \<Rightarrow> 'a world \<Rightarrow> 'a world \<times> ('e abrupt + unit)" where
  "optional_of_move T this val w0 =
     (let w = optional_default this w0 in
      placement_new this (snd (move_construct T val)) (set_is_initialized this True w))"

subsection \<open>Assignment operators\<close>

text \<open>They return \<^verbatim>\<open>*this\<close>: here, the address of the container.\<close>

text \<open>\<^verbatim>\<open>optional &operator=(const value_type &val)\<close>.\<close>

definition assign_value_copy ::
  "('a, 'args, 'e) T \<Rightarrow> addr \<Rightarrow> 'a \<Rightarrow> 'a world \<Rightarrow> 'a world \<times> ('e abrupt + addr)" where
  "assign_value_copy T this val w =
     and_then
       (if is_initialized (objs w this) then
          and_then (w, value_lvalue this w) (\<lambda>dst. copy_assign_from T dst val)
        else
          and_then (placement_new this (copy_construct T val) w) (\<lambda>_ w.
            (set_is_initialized this True w, Inr ())))
       (\<lambda>_ w. (w, Inr this))"

text \<open>\<^verbatim>\<open>optional &operator=(value_type &&val)\<close>.\<close>

definition assign_value_move ::
  "('a, 'args, 'e) T \<Rightarrow> addr \<Rightarrow> 'a \<Rightarrow> 'a world \<Rightarrow> 'a world \<times> ('e abrupt + addr)" where
  "assign_value_move T this val w =
     and_then
       (if is_initialized (objs w this) then
          and_then (w, value_lvalue this w) (\<lambda>dst. move_assign_from T dst val)
        else
          and_then (placement_new this (snd (move_construct T val)) w) (\<lambda>_ w.
            (set_is_initialized this True w, Inr ())))
       (\<lambda>_ w. (w, Inr this))"

text \<open>\<^verbatim>\<open>optional &operator=(const optional &other)\<close>.\<close>

definition assign_copy ::
  "('a, 'args, 'e) T \<Rightarrow> addr \<Rightarrow> addr \<Rightarrow> 'a world \<Rightarrow> 'a world \<times> ('e abrupt + addr)" where
  "assign_copy T this other w =
     (if this = other then (w, Inr this)
      else
        and_then
          (if is_initialized (objs w this) \<and> is_initialized (objs w other) then
             and_then (w, value_const other w) (\<lambda>src w.
             and_then (w, value_lvalue this w) (\<lambda>dst. copy_assign_at T dst src))
           else if \<not> is_initialized (objs w this) \<and> is_initialized (objs w other) then
             and_then (w, value_const other w) (\<lambda>src w.
             and_then (placement_copy T this src w) (\<lambda>_ w.
               (set_is_initialized this True w, Inr ())))
           else if is_initialized (objs w this) \<and> \<not> is_initialized (objs w other) then
             reset this w
           else (w, Inr ()))
          (\<lambda>_ w. (w, Inr this)))"

text \<open>\<^verbatim>\<open>optional &operator=(optional &&other)\<close>: no comparison of the addresses.\<close>

definition assign_move ::
  "('a, 'args, 'e) T \<Rightarrow> addr \<Rightarrow> addr \<Rightarrow> 'a world \<Rightarrow> 'a world \<times> ('e abrupt + addr)" where
  "assign_move T this other w =
     and_then
       (if is_initialized (objs w this) \<and> is_initialized (objs w other) then
          and_then (w, value_lvalue other w) (\<lambda>src w.
          and_then (w, value_lvalue this w) (\<lambda>dst. move_assign_at T dst src))
        else if \<not> is_initialized (objs w this) \<and> is_initialized (objs w other) then
          and_then (w, value_lvalue other w) (\<lambda>src w.
          and_then (placement_move T this src w) (\<lambda>_ w.
            (set_is_initialized this True w, Inr ())))
        else if is_initialized (objs w this) \<and> \<not> is_initialized (objs w other) then
          reset this w
        else (w, Inr ()))
       (\<lambda>_ w. (w, Inr this))"

section \<open>The invariant of the data model\<close>

text \<open>
  The flag is set exactly when a live \<open>T\<close> object is in the storage. The storage holds
  at most one object at a time, so "exactly one" is "one".
\<close>

definition invariant :: "'a optional \<Rightarrow> bool" where
  "invariant s \<longleftrightarrow> (is_initialized s \<longleftrightarrow> data s \<noteq> None)"

section \<open>Concrete contained types and worlds\<close>

text \<open>A world with no object alive and all flags clear.\<close>

definition empty_world :: "'a world" where
  "empty_world = \<lparr>objs = (\<lambda>_. \<lparr>data = None, is_initialized = False\<rparr>), events = []\<rparr>"

text \<open>
  \<^verbatim>\<open>T = int\<close>: nothing throws, moving is copying, and \<^verbatim>\<open>int{x}\<close> is a copy.
\<close>

definition int_T :: "(int, int, unit) T" where
  "int_T =
     \<lparr>construct = (\<lambda>n. Inr n),
      copy_construct = (\<lambda>x. Inr x),
      list_construct = (\<lambda>x. Inr x),
      move_construct = (\<lambda>x. (x, Inr x)),
      copy_assign = (\<lambda>x y. (y, None)),
      move_assign = (\<lambda>x y. ((y, y), None)),
      copy_assign_self = (\<lambda>x. (x, None)),
      move_assign_self = (\<lambda>x. (x, None))\<rparr>"

text \<open>
  A vector of integers, as \<^verbatim>\<open>T = std::vector<int>\<close>: moving hands the elements over and
  leaves the source empty. Move assignment gives up the target's old elements before it
  takes the source's, so \<^verbatim>\<open>x = std::move(x)\<close> leaves \<open>x\<close> empty. Its initializer-list
  constructor takes integers, not vectors, so \<^verbatim>\<open>T{x}\<close> is the copy constructor.
\<close>

definition vector_T :: "(int list, int list, unit) T" where
  "vector_T =
     \<lparr>construct = (\<lambda>xs. Inr xs),
      copy_construct = (\<lambda>x. Inr x),
      list_construct = (\<lambda>x. Inr x),
      move_construct = (\<lambda>x. ([], Inr x)),
      copy_assign = (\<lambda>x y. (y, None)),
      move_assign = (\<lambda>x y. ((y, []), None)),
      copy_assign_self = (\<lambda>x. (x, None)),
      move_assign_self = (\<lambda>x. ([], None))\<rparr>"

text \<open>
  A type whose constructors can throw: the constructor from an integer throws on a
  negative argument, the copy and the move constructor always throw. It has no
  initializer-list constructor, so \<^verbatim>\<open>T{x}\<close> is the copy constructor.
\<close>

definition fragile_T :: "(int, int, unit) T" where
  "fragile_T =
     \<lparr>construct = (\<lambda>n. if n < 0 then Inl () else Inr n),
      copy_construct = (\<lambda>x. Inl ()),
      list_construct = (\<lambda>x. Inl ()),
      move_construct = (\<lambda>x. (x, Inl ())),
      copy_assign = (\<lambda>x y. (y, None)),
      move_assign = (\<lambda>x y. ((y, y), None)),
      copy_assign_self = (\<lambda>x. (x, None)),
      move_assign_self = (\<lambda>x. (x, None))\<rparr>"

text \<open>
  A vector whose elements can themselves hold a vector, as \<^verbatim>\<open>T = std::vector<std::any>\<close>.
  Its initializer-list constructor takes elements, and a vector converts to an element:
  \<^verbatim>\<open>T{x}\<close> is the vector of the one element that holds a copy of \<open>x\<close>, while \<^verbatim>\<open>T(x)\<close> is a
  copy of \<open>x\<close>.
\<close>

datatype any = any_int int | any_vector "any list"

definition any_vector_T :: "(any list, any list, unit) T" where
  "any_vector_T =
     \<lparr>construct = (\<lambda>xs. Inr xs),
      copy_construct = (\<lambda>x. Inr x),
      list_construct = (\<lambda>x. Inr [any_vector x]),
      move_construct = (\<lambda>x. ([], Inr x)),
      copy_assign = (\<lambda>x y. (y, None)),
      move_assign = (\<lambda>x y. ((y, []), None)),
      copy_assign_self = (\<lambda>x. (x, None)),
      move_assign_self = (\<lambda>x. ([], None))\<rparr>"

text \<open>One container at address 0, engaged by \<^verbatim>\<open>emplace\<close>.\<close>

definition int_world :: "int world" where
  "int_world = fst (emplace int_T 0 7 (optional_default 0 empty_world))"

definition vector_world :: "int list world" where
  "vector_world = fst (emplace vector_T 0 [1, 2, 3] (optional_default 0 empty_world))"

definition fragile_world :: "int world" where
  "fragile_world = fst (emplace fragile_T 0 5 (optional_default 0 empty_world))"

text \<open>Two containers, at addresses 0 and 1, both engaged.\<close>

definition two_vectors_world :: "int list world" where
  "two_vectors_world = fst (emplace vector_T 1 [9] vector_world)"

section \<open>Properties\<close>

lemmas prim_defs = load_def store_def set_is_initialized_def and_then_def thrown_def
  placement_new_def placement_copy_def placement_move_def copy_assign_at_def
  move_assign_at_def copy_assign_from_def move_assign_from_def destroy_at_def

lemmas access_defs = has_value_def deref_lvalue_def deref_const_def arrow_def
  arrow_const_def deref_rvalue_def value_lvalue_def value_const_def

lemmas example_defs = empty_world_def int_T_def vector_T_def fragile_T_def any_vector_T_def
  int_world_def vector_world_def fragile_world_def two_vectors_world_def
  optional_default_def emplace_def

subsection \<open>Which operations raise \<^verbatim>\<open>bad_optional_access\<close>\<close>

lemma reset_no_bad_access: "snd (reset this w) \<noteq> Inl bad_optional_access"
  by (auto simp: reset_def prim_defs split: option.splits)

lemma emplace_no_bad_access: "snd (emplace T this args w) \<noteq> Inl bad_optional_access"
  by (auto simp: emplace_def reset_def prim_defs split: option.splits sum.splits)

lemma destructor_no_bad_access: "snd (destructor this w) \<noteq> Inl bad_optional_access"
  by (auto simp: destructor_def prim_defs split: option.splits)

lemma optional_copy_no_bad_access:
  "snd (optional_copy T this other w) \<noteq> Inl bad_optional_access"
  by (auto simp: optional_copy_def optional_default_def reset_def access_defs prim_defs
      Let_def split: option.splits sum.splits prod.splits)

lemma optional_move_no_bad_access:
  "snd (optional_move T this other w) \<noteq> Inl bad_optional_access"
  by (auto simp: optional_move_def noexcept_def optional_default_def reset_def
      access_defs prim_defs Let_def
      split: option.splits sum.splits prod.splits abrupt.splits)

lemma optional_of_copy_no_bad_access:
  "snd (optional_of_copy T this val w) \<noteq> Inl bad_optional_access"
  by (auto simp: optional_of_copy_def optional_default_def prim_defs Let_def
      split: sum.splits)

lemma optional_of_move_no_bad_access:
  "snd (optional_of_move T this val w) \<noteq> Inl bad_optional_access"
  by (auto simp: optional_of_move_def optional_default_def prim_defs Let_def
      split: sum.splits)

lemma assign_value_copy_no_bad_access:
  "snd (assign_value_copy T this val w) \<noteq> Inl bad_optional_access"
  by (auto simp: assign_value_copy_def access_defs prim_defs
      split: option.splits sum.splits prod.splits)

lemma assign_value_move_no_bad_access:
  "snd (assign_value_move T this val w) \<noteq> Inl bad_optional_access"
  by (auto simp: assign_value_move_def access_defs prim_defs
      split: option.splits sum.splits prod.splits)

lemma assign_copy_no_bad_access:
  "snd (assign_copy T this other w) \<noteq> Inl bad_optional_access"
  by (auto simp: assign_copy_def reset_def access_defs prim_defs
      split: option.splits sum.splits prod.splits)

lemma assign_move_no_bad_access:
  "snd (assign_move T this other w) \<noteq> Inl bad_optional_access"
  by (auto simp: assign_move_def reset_def access_defs prim_defs
      split: option.splits sum.splits prod.splits)

text \<open>
  C1. The checked accessors, \<^verbatim>\<open>value()\<close> in both overloads and the rvalue-qualified
  \<^verbatim>\<open>operator*\<close>, raise \<^verbatim>\<open>bad_optional_access\<close> if and only if the container is
  disengaged. When it is engaged they return, without error, a reference to the storage,
  through which the contained value is read. No other public operation raises
  \<^verbatim>\<open>bad_optional_access\<close>: the calls of \<^verbatim>\<open>value()\<close> inside the constructors and the
  assignment operators are all made behind a test of the flag. (An exception thrown by a
  member of \<open>T\<close> is \<open>T\<close>'s, whatever its type.)
\<close>

theorem checked_access_raises_iff_disengaged:
  fixes T :: "('a, 'args, 'e) T"
  shows
  "(value_lvalue this w = (Inl bad_optional_access :: 'e abrupt + reference)
      \<longleftrightarrow> \<not> has_value this w) \<and>
   (value_const this w = (Inl bad_optional_access :: 'e abrupt + reference)
      \<longleftrightarrow> \<not> has_value this w) \<and>
   (deref_rvalue this w = (Inl bad_optional_access :: 'e abrupt + reference)
      \<longleftrightarrow> \<not> has_value this w) \<and>
   (has_value this w \<and> data (objs w this) = Some v \<longrightarrow>
      value_lvalue this w = (Inr (Data this) :: 'e abrupt + reference) \<and>
      value_const this w = (Inr (Data this) :: 'e abrupt + reference) \<and>
      deref_rvalue this w = (Inr (Data this) :: 'e abrupt + reference) \<and>
      load w (Data this) = Some v) \<and>
   deref_lvalue this w \<noteq> (Inl bad_optional_access :: 'e abrupt + reference) \<and>
   deref_const this w \<noteq> (Inl bad_optional_access :: 'e abrupt + reference) \<and>
   arrow this w \<noteq> (Inl bad_optional_access :: 'e abrupt + reference) \<and>
   arrow_const this w \<noteq> (Inl bad_optional_access :: 'e abrupt + reference) \<and>
   snd (reset this w) \<noteq> (Inl bad_optional_access :: 'e abrupt + unit) \<and>
   snd (emplace T this args w) \<noteq> Inl bad_optional_access \<and>
   snd (destructor this w) \<noteq> (Inl bad_optional_access :: 'e abrupt + unit) \<and>
   snd (optional_copy T this other w) \<noteq> Inl bad_optional_access \<and>
   snd (optional_move T this other w) \<noteq> Inl bad_optional_access \<and>
   snd (optional_of_copy T this val w) \<noteq> Inl bad_optional_access \<and>
   snd (optional_of_move T this val w) \<noteq> Inl bad_optional_access \<and>
   snd (assign_value_copy T this val w) \<noteq> Inl bad_optional_access \<and>
   snd (assign_value_move T this val w) \<noteq> Inl bad_optional_access \<and>
   snd (assign_copy T this other w) \<noteq> Inl bad_optional_access \<and>
   snd (assign_move T this other w) \<noteq> Inl bad_optional_access"
proof -
  have checked:
    "(value_lvalue this w = (Inl bad_optional_access :: 'e abrupt + reference)
        \<longleftrightarrow> \<not> has_value this w) \<and>
     (value_const this w = (Inl bad_optional_access :: 'e abrupt + reference)
        \<longleftrightarrow> \<not> has_value this w) \<and>
     (deref_rvalue this w = (Inl bad_optional_access :: 'e abrupt + reference)
        \<longleftrightarrow> \<not> has_value this w)"
    by (simp add: access_defs)
  have engaged:
    "has_value this w \<and> data (objs w this) = Some v \<longrightarrow>
      value_lvalue this w = (Inr (Data this) :: 'e abrupt + reference) \<and>
      value_const this w = (Inr (Data this) :: 'e abrupt + reference) \<and>
      deref_rvalue this w = (Inr (Data this) :: 'e abrupt + reference) \<and>
      load w (Data this) = Some v"
    by (simp add: access_defs load_def)
  have plain:
    "deref_lvalue this w \<noteq> (Inl bad_optional_access :: 'e abrupt + reference) \<and>
     deref_const this w \<noteq> (Inl bad_optional_access :: 'e abrupt + reference) \<and>
     arrow this w \<noteq> (Inl bad_optional_access :: 'e abrupt + reference) \<and>
     arrow_const this w \<noteq> (Inl bad_optional_access :: 'e abrupt + reference)"
    by (simp add: access_defs)
  have members:
    "snd (reset this w) \<noteq> (Inl bad_optional_access :: 'e abrupt + unit) \<and>
     snd (emplace T this args w) \<noteq> Inl bad_optional_access \<and>
     snd (destructor this w) \<noteq> (Inl bad_optional_access :: 'e abrupt + unit) \<and>
     snd (optional_copy T this other w) \<noteq> Inl bad_optional_access \<and>
     snd (optional_move T this other w) \<noteq> Inl bad_optional_access \<and>
     snd (optional_of_copy T this val w) \<noteq> Inl bad_optional_access \<and>
     snd (optional_of_move T this val w) \<noteq> Inl bad_optional_access \<and>
     snd (assign_value_copy T this val w) \<noteq> Inl bad_optional_access \<and>
     snd (assign_value_move T this val w) \<noteq> Inl bad_optional_access \<and>
     snd (assign_copy T this other w) \<noteq> Inl bad_optional_access \<and>
     snd (assign_move T this other w) \<noteq> Inl bad_optional_access"
    by (simp add: reset_no_bad_access emplace_no_bad_access destructor_no_bad_access
      optional_copy_no_bad_access optional_move_no_bad_access
      optional_of_copy_no_bad_access optional_of_move_no_bad_access
      assign_value_copy_no_bad_access assign_value_move_no_bad_access
      assign_copy_no_bad_access assign_move_no_bad_access)
  from checked engaged plain members show ?thesis
    by blast
qed

theorem checked_access_raises_iff_disengaged_witness:
  "has_value 0 int_world \<and> data (objs int_world 0) = Some 7 \<and>
   value_lvalue 0 int_world = (Inr (Data 0) :: unit abrupt + reference) \<and>
   value_const 0 int_world = (Inr (Data 0) :: unit abrupt + reference) \<and>
   deref_rvalue 0 int_world = (Inr (Data 0) :: unit abrupt + reference) \<and>
   load int_world (Data 0) = Some 7 \<and>
   \<not> has_value 0 (empty_world :: int world) \<and>
   value_lvalue 0 (empty_world :: int world)
     = (Inl bad_optional_access :: unit abrupt + reference)"
proof -
  have engaged: "has_value 0 int_world \<and> data (objs int_world 0) = Some 7"
    by (simp add: example_defs has_value_def prim_defs)
  have disengaged: "\<not> has_value 0 (empty_world :: int world)"
    by (simp add: empty_world_def has_value_def)
  from engaged disengaged
    checked_access_raises_iff_disengaged
      [where T = int_T and this = 0 and w = int_world and v = 7]
    checked_access_raises_iff_disengaged
      [where T = int_T and this = 0 and w = "empty_world :: int world"]
  show ?thesis by blast
qed

subsection \<open>Construction from a value\<close>

text \<open>
  What the two value constructors store, for every \<open>T\<close>. When the construction of the
  \<open>T\<close> object returns, the container is engaged and \<^verbatim>\<open>value()\<close> designates the new
  object: the one \<^verbatim>\<open>T{val}\<close> built in the constructor from a \<^verbatim>\<open>const T&\<close>, the one
  \<open>T\<close>'s move constructor built in the constructor from a \<^verbatim>\<open>T&&\<close>. (A construction
  that throws yields no container at all.)
\<close>

lemma value_constructors_store:
  fixes T :: "('a, 'args, 'e) T"
  shows
  "(list_construct T val = Inr v \<longrightarrow>
      snd (optional_of_copy T this val w) = Inr () \<and>
      has_value this (fst (optional_of_copy T this val w)) \<and>
      value_lvalue this (fst (optional_of_copy T this val w))
        = (Inr (Data this) :: 'e abrupt + reference) \<and>
      load (fst (optional_of_copy T this val w)) (Data this) = Some v) \<and>
   (snd (move_construct T val) = Inr v \<longrightarrow>
      snd (optional_of_move T this val w) = Inr () \<and>
      has_value this (fst (optional_of_move T this val w)) \<and>
      value_lvalue this (fst (optional_of_move T this val w))
        = (Inr (Data this) :: 'e abrupt + reference) \<and>
      load (fst (optional_of_move T this val w)) (Data this) = Some v)"
  by (simp add: optional_of_copy_def optional_of_move_def optional_default_def
      placement_new_def set_is_initialized_def has_value_def value_lvalue_def load_def)

text \<open>
  C7 says that constructing a container from a value \<open>v\<close>, by copy or by move, yields an
  engaged container with \<^verbatim>\<open>value()\<close> equal to \<open>v\<close>, for every \<open>T\<close>. The constructor from
  \<^verbatim>\<open>const T&\<close> does not copy \<open>v\<close>, it list-initialises from it: for the vector whose
  elements can hold a vector, constructing from the three-element vector \<open>[1, 2, 3]\<close>
  yields an engaged container holding the one-element vector \<open>[[1, 2, 3]]\<close>, where a copy
  of \<open>v\<close> is \<open>v\<close>. The constructor from \<^verbatim>\<open>T&&\<close>, written with parentheses, holds \<open>v\<close>.
\<close>

theorem value_constructor_wraps_value:
  "copy_construct any_vector_T [any_int 1, any_int 2, any_int 3]
     = Inr [any_int 1, any_int 2, any_int 3] \<and>
   snd (optional_of_copy any_vector_T 0 [any_int 1, any_int 2, any_int 3] empty_world)
     = Inr () \<and>
   has_value 0
     (fst (optional_of_copy any_vector_T 0 [any_int 1, any_int 2, any_int 3] empty_world)) \<and>
   load (fst (optional_of_copy any_vector_T 0 [any_int 1, any_int 2, any_int 3] empty_world))
     (Data 0) = Some [any_vector [any_int 1, any_int 2, any_int 3]] \<and>
   load (fst (optional_of_copy any_vector_T 0 [any_int 1, any_int 2, any_int 3] empty_world))
     (Data 0) \<noteq> Some [any_int 1, any_int 2, any_int 3] \<and>
   load (fst (optional_of_move any_vector_T 0 [any_int 1, any_int 2, any_int 3] empty_world))
     (Data 0) = Some [any_int 1, any_int 2, any_int 3]"
  by (simp add: optional_of_copy_def optional_of_move_def example_defs prim_defs
      has_value_def)

subsection \<open>emplace and reset\<close>

text \<open>
  C8. Whatever the prior engagement state (engaged with a live object, or disengaged
  with none), \<^verbatim>\<open>emplace(args...)\<close> followed by \<^verbatim>\<open>value()\<close> yields the object that
  \<^verbatim>\<open>T(args...)\<close> constructs, and a value contained before is destroyed first: its
  destructor runs before the new object is constructed.
\<close>

theorem emplace_then_value:
  fixes T :: "('a, 'args, 'e) T"
  assumes "construct T args = Inr v" and "invariant (objs w this)"
  shows
  "snd (emplace T this args w) = Inr () \<and>
   has_value this (fst (emplace T this args w)) \<and>
   value_lvalue this (fst (emplace T this args w))
     = (Inr (Data this) :: 'e abrupt + reference) \<and>
   load (fst (emplace T this args w)) (Data this) = Some v \<and>
   events (fst (emplace T this args w))
     = events w @ (case data (objs w this) of None \<Rightarrow> [] | Some x \<Rightarrow> [Destroyed x])
         @ [Constructed v]"
  using assms
  by (auto simp: emplace_def reset_def invariant_def prim_defs has_value_def
      value_lvalue_def split: option.splits)

theorem emplace_then_value_witness:
  "construct int_T 9 = Inr 9 \<and> invariant (objs int_world 0) \<and>
   invariant (objs (empty_world :: int world) 0) \<and>
   load (fst (emplace int_T 0 9 int_world)) (Data 0) = Some 9 \<and>
   events (fst (emplace int_T 0 9 int_world))
     = [Constructed 7, Destroyed 7, Constructed 9] \<and>
   load (fst (emplace int_T 0 9 empty_world)) (Data 0) = Some 9 \<and>
   events (fst (emplace int_T 0 9 empty_world)) = [Constructed 9]"
proof -
  have ctor: "construct int_T 9 = Inr 9"
    by (simp add: int_T_def)
  have inv: "invariant (objs int_world 0)" "invariant (objs (empty_world :: int world) 0)"
    by (simp_all add: invariant_def example_defs prim_defs)
  have before: "events int_world = [Constructed 7]" "data (objs int_world 0) = Some 7"
    "events (empty_world :: int world) = []" "data (objs (empty_world :: int world) 0) = None"
    by (simp_all add: example_defs prim_defs)
  from emplace_then_value [OF ctor inv(1)] emplace_then_value [OF ctor inv(2)] ctor inv before
  show ?thesis by simp
qed

text \<open>
  C9. \<^verbatim>\<open>reset()\<close> on an engaged container destroys the contained value and clears
  the flag; on a disengaged container it changes nothing; and resetting twice is the
  same as resetting once.
\<close>

theorem reset_disengages_and_is_idempotent:
  fixes w :: "'a world"
  shows
  "(has_value this w \<and> data (objs w this) = Some x \<longrightarrow>
      reset this w =
        (w\<lparr>objs := (objs w)(this := \<lparr>data = None, is_initialized = False\<rparr>),
           events := events w @ [Destroyed x]\<rparr>, (Inr () :: 'e abrupt + unit)) \<and>
      \<not> has_value this (fst (reset this w :: 'a world \<times> ('e abrupt + unit)))) \<and>
   (\<not> has_value this w \<longrightarrow> reset this w = (w, (Inr () :: 'e abrupt + unit))) \<and>
   and_then (reset this w) (\<lambda>_. reset this)
     = (reset this w :: 'a world \<times> ('e abrupt + unit))"
  by (cases w) (auto simp: reset_def prim_defs has_value_def split: option.splits)

theorem reset_disengages_and_is_idempotent_witness:
  "has_value 0 int_world \<and> data (objs int_world 0) = Some 7 \<and>
   \<not> has_value 0 (fst (reset 0 int_world :: int world \<times> (unit abrupt + unit))) \<and>
   events (fst (reset 0 int_world :: int world \<times> (unit abrupt + unit)))
     = [Constructed 7, Destroyed 7] \<and>
   \<not> has_value 0 (empty_world :: int world) \<and>
   reset 0 (empty_world :: int world) = (empty_world, (Inr () :: unit abrupt + unit))"
proof -
  have engaged: "has_value 0 int_world \<and> data (objs int_world 0) = Some 7"
    by (simp add: example_defs has_value_def prim_defs)
  have log: "events int_world = [Constructed 7]"
    by (simp add: example_defs prim_defs)
  have disengaged: "\<not> has_value 0 (empty_world :: int world)"
    by (simp add: empty_world_def has_value_def)
  note r1 = reset_disengages_and_is_idempotent
      [where this = 0 and w = int_world and x = 7 and ?'e = unit]
  note r2 = reset_disengages_and_is_idempotent
      [where this = 0 and w = "empty_world :: int world" and ?'e = unit]
  from r1 engaged log have
    "\<not> has_value 0 (fst (reset 0 int_world :: int world \<times> (unit abrupt + unit))) \<and>
     events (fst (reset 0 int_world :: int world \<times> (unit abrupt + unit)))
       = [Constructed 7, Destroyed 7]"
    by (simp add: has_value_def)
  moreover from r2 disengaged have
    "reset 0 (empty_world :: int world) = (empty_world, (Inr () :: unit abrupt + unit))"
    by blast
  ultimately show ?thesis using engaged disengaged by blast
qed

subsection \<open>Unchecked access\<close>

text \<open>
  C10. The lvalue \<^verbatim>\<open>operator*\<close> and \<^verbatim>\<open>operator->\<close>, in their plain and const
  overloads, test nothing: in every state they return the reference (the pointer) to the
  storage and never raise \<^verbatim>\<open>bad_optional_access\<close>. On a disengaged container the
  storage holds no live object, and using the reference as a \<open>T\<close> is undefined
  behaviour.
\<close>

theorem unchecked_access_has_no_check:
  fixes T :: "('a, 'args, 'e) T"
  shows
  "deref_lvalue this w = (Inr (Data this) :: 'e abrupt + reference) \<and>
   deref_const this w = (Inr (Data this) :: 'e abrupt + reference) \<and>
   arrow this w = (Inr (Data this) :: 'e abrupt + reference) \<and>
   arrow_const this w = (Inr (Data this) :: 'e abrupt + reference) \<and>
   (\<not> has_value this w \<and> invariant (objs w this) \<longrightarrow>
      load w (Data this) = None \<and>
      snd (copy_assign_from T (Data this) val w) = Inl undefined_behavior \<and>
      snd (move_assign_from T (Data this) val w) = Inl undefined_behavior \<and>
      snd (placement_copy T other (Data this) w) = Inl undefined_behavior)"
  by (auto simp: access_defs invariant_def prim_defs)

theorem unchecked_access_has_no_check_witness:
  "\<not> has_value 0 (empty_world :: int world) \<and>
   invariant (objs (empty_world :: int world) 0) \<and>
   deref_lvalue 0 (empty_world :: int world) = (Inr (Data 0) :: unit abrupt + reference) \<and>
   arrow 0 (empty_world :: int world) = (Inr (Data 0) :: unit abrupt + reference) \<and>
   load (empty_world :: int world) (Data 0) = None \<and>
   snd (copy_assign_from int_T (Data 0) 1 empty_world) = Inl undefined_behavior"
proof -
  have disengaged: "\<not> has_value 0 (empty_world :: int world) \<and>
      invariant (objs (empty_world :: int world) 0)"
    by (simp add: empty_world_def has_value_def invariant_def)
  from disengaged unchecked_access_has_no_check
      [where T = int_T and this = 0 and w = empty_world and val = 1]
  show ?thesis by blast
qed

subsection \<open>Moving from an engaged source\<close>

text \<open>
  C6. Move construction and move assignment from an engaged source (another container):
  when \<open>T\<close>'s move returns, the destination is engaged and holds the moved value, and
  the source is still engaged, its object in the moved-from state. The source's flag
  stays set even when \<open>T\<close>'s move throws.
\<close>

theorem move_leaves_source_engaged:
  fixes T :: "('a, 'args, 'e) T"
  assumes "has_value other w" and "data (objs w other) = Some y" and "this \<noteq> other"
  shows
  "(move_construct T y = (y', Inr v) \<longrightarrow>
      snd (optional_move T this other w) = Inr () \<and>
      has_value this (fst (optional_move T this other w)) \<and>
      data (objs (fst (optional_move T this other w)) this) = Some v \<and>
      has_value other (fst (optional_move T this other w)) \<and>
      data (objs (fst (optional_move T this other w)) other) = Some y') \<and>
   (\<not> has_value this w \<and> move_construct T y = (y', Inr v) \<longrightarrow>
      snd (assign_move T this other w) = Inr this \<and>
      has_value this (fst (assign_move T this other w)) \<and>
      data (objs (fst (assign_move T this other w)) this) = Some v \<and>
      has_value other (fst (assign_move T this other w)) \<and>
      data (objs (fst (assign_move T this other w)) other) = Some y') \<and>
   (has_value this w \<and> data (objs w this) = Some x \<and>
    move_assign T x y = ((x', y'), None) \<longrightarrow>
      snd (assign_move T this other w) = Inr this \<and>
      has_value this (fst (assign_move T this other w)) \<and>
      data (objs (fst (assign_move T this other w)) this) = Some x' \<and>
      has_value other (fst (assign_move T this other w)) \<and>
      data (objs (fst (assign_move T this other w)) other) = Some y') \<and>
   has_value other (fst (optional_move T this other w)) \<and>
   has_value other (fst (assign_move T this other w))"
proof -
  have ctor: "move_construct T y = (y', Inr v) \<longrightarrow>
      snd (optional_move T this other w) = Inr () \<and>
      has_value this (fst (optional_move T this other w)) \<and>
      data (objs (fst (optional_move T this other w)) this) = Some v \<and>
      has_value other (fst (optional_move T this other w)) \<and>
      data (objs (fst (optional_move T this other w)) other) = Some y'"
    using assms
    by (simp add: optional_move_def noexcept_def optional_default_def access_defs
        prim_defs Let_def)
  have assign_new: "\<not> has_value this w \<and> move_construct T y = (y', Inr v) \<longrightarrow>
      snd (assign_move T this other w) = Inr this \<and>
      has_value this (fst (assign_move T this other w)) \<and>
      data (objs (fst (assign_move T this other w)) this) = Some v \<and>
      has_value other (fst (assign_move T this other w)) \<and>
      data (objs (fst (assign_move T this other w)) other) = Some y'"
    using assms
    by (simp add: assign_move_def access_defs prim_defs)
  have assign_old: "has_value this w \<and> data (objs w this) = Some x \<and>
    move_assign T x y = ((x', y'), None) \<longrightarrow>
      snd (assign_move T this other w) = Inr this \<and>
      has_value this (fst (assign_move T this other w)) \<and>
      data (objs (fst (assign_move T this other w)) this) = Some x' \<and>
      has_value other (fst (assign_move T this other w)) \<and>
      data (objs (fst (assign_move T this other w)) other) = Some y'"
    using assms
    by (simp add: assign_move_def access_defs prim_defs)
  have flag_ctor: "has_value other (fst (optional_move T this other w))"
    using assms
    by (auto simp: optional_move_def noexcept_def optional_default_def access_defs
        prim_defs Let_def split: prod.splits sum.splits)
  have flag_assign: "has_value other (fst (assign_move T this other w))"
    using assms
    by (auto simp: assign_move_def access_defs prim_defs
        split: prod.splits sum.splits option.splits)
  from ctor assign_new assign_old flag_ctor flag_assign show ?thesis
    by blast
qed

theorem move_leaves_source_engaged_witness:
  "has_value 0 vector_world \<and> data (objs vector_world 0) = Some [1, 2, 3] \<and>
   \<not> has_value 1 vector_world \<and>
   move_construct vector_T [1, 2, 3] = ([], Inr [1, 2, 3]) \<and>
   data (objs (fst (optional_move vector_T 1 0 vector_world)) 1) = Some [1, 2, 3] \<and>
   has_value 0 (fst (optional_move vector_T 1 0 vector_world)) \<and>
   data (objs (fst (assign_move vector_T 1 0 vector_world)) 1) = Some [1, 2, 3] \<and>
   has_value 0 (fst (assign_move vector_T 1 0 vector_world)) \<and>
   data (objs (fst (assign_move vector_T 1 0 vector_world)) 0) = Some [] \<and>
   has_value 1 two_vectors_world \<and> data (objs two_vectors_world 1) = Some [9] \<and>
   move_assign vector_T [9] [1, 2, 3] = (([1, 2, 3], []), None) \<and>
   data (objs (fst (assign_move vector_T 1 0 two_vectors_world)) 1) = Some [1, 2, 3] \<and>
   has_value 0 (fst (assign_move vector_T 1 0 two_vectors_world))"
proof -
  have src: "has_value 0 vector_world" "data (objs vector_world 0) = Some [1, 2, 3]"
    and dst: "\<not> has_value 1 vector_world"
    by (simp_all add: example_defs has_value_def prim_defs)
  have src2: "has_value 0 two_vectors_world"
      "data (objs two_vectors_world 0) = Some [1, 2, 3]"
    and dst2: "has_value 1 two_vectors_world" "data (objs two_vectors_world 1) = Some [9]"
    by (simp_all add: two_vectors_world_def example_defs has_value_def prim_defs)
  have ne: "(1::nat) \<noteq> 0"
    by simp
  have mv: "move_construct vector_T [1, 2, 3] = ([], Inr [1, 2, 3])"
      "move_assign vector_T [9] [1, 2, 3] = (([1, 2, 3], []), None)"
    by (simp_all add: vector_T_def)
  from move_leaves_source_engaged [OF src ne, where T = vector_T and y' = "[]"
        and v = "[1, 2, 3]"]
    move_leaves_source_engaged [OF src2 ne, where T = vector_T and y' = "[]"
        and x = "[9]" and x' = "[1, 2, 3]"]
    src dst dst2 mv
  show ?thesis by blast
qed

subsection \<open>When the flag is written, and a constructor of T that throws\<close>

text \<open>
  C4, as stated, fails on the value constructors. Both write
  \<^verbatim>\<open>is_initialized_ = true\<close> before the placement construction: when \<open>T\<close>'s copy
  constructor throws, the flag is already set over storage that holds no object. Here
  \<open>T\<close> is the type whose copy constructor always throws.
\<close>

theorem value_constructor_sets_flag_first:
  "snd (optional_of_copy fragile_T 0 5 empty_world) = Inl (T_exception ()) \<and>
   has_value 0 (fst (optional_of_copy fragile_T 0 5 empty_world)) \<and>
   data (objs (fst (optional_of_copy fragile_T 0 5 empty_world)) 0) = None"
  by (simp add: optional_of_copy_def example_defs prim_defs has_value_def)

text \<open>
  C4, amended. In the copy and move constructors and in the four assignment operators
  with a disengaged destination, the flag is written only after the placement
  construction has returned. If \<open>T\<close>'s constructor throws, the exception leaves the
  function with the destination's flag clear and its storage untouched (out of the
  \<^verbatim>\<open>noexcept\<close> move constructor it becomes \<^verbatim>\<open>std::terminate\<close>); if it returns, the
  function ends with the flag set over the new object.
\<close>

theorem flag_set_after_construction:
  fixes T :: "('a, 'args, 'e) T"
  shows
  "(\<not> has_value this w \<longrightarrow>
      (case copy_construct T val of
         Inl e \<Rightarrow> assign_value_copy T this val w = (w, Inl (T_exception e))
       | Inr v \<Rightarrow>
           snd (assign_value_copy T this val w) = Inr this \<and>
           has_value this (fst (assign_value_copy T this val w)) \<and>
           data (objs (fst (assign_value_copy T this val w)) this) = Some v)) \<and>
   (\<not> has_value this w \<longrightarrow>
      (case snd (move_construct T val) of
         Inl e \<Rightarrow> assign_value_move T this val w = (w, Inl (T_exception e))
       | Inr v \<Rightarrow>
           snd (assign_value_move T this val w) = Inr this \<and>
           has_value this (fst (assign_value_move T this val w)) \<and>
           data (objs (fst (assign_value_move T this val w)) this) = Some v)) \<and>
   (\<not> has_value this w \<and> has_value other w \<and> data (objs w other) = Some y \<longrightarrow>
      (case copy_construct T y of
         Inl e \<Rightarrow> assign_copy T this other w = (w, Inl (T_exception e))
       | Inr v \<Rightarrow>
           snd (assign_copy T this other w) = Inr this \<and>
           has_value this (fst (assign_copy T this other w)) \<and>
           data (objs (fst (assign_copy T this other w)) this) = Some v)) \<and>
   (\<not> has_value this w \<and> has_value other w \<and> data (objs w other) = Some y \<longrightarrow>
      (case snd (move_construct T y) of
         Inl e \<Rightarrow>
           snd (assign_move T this other w) = Inl (T_exception e) \<and>
           \<not> has_value this (fst (assign_move T this other w)) \<and>
           data (objs (fst (assign_move T this other w)) this) = data (objs w this)
       | Inr v \<Rightarrow>
           snd (assign_move T this other w) = Inr this \<and>
           has_value this (fst (assign_move T this other w)) \<and>
           data (objs (fst (assign_move T this other w)) this) = Some v)) \<and>
   (this \<noteq> other \<and> has_value other w \<and> data (objs w other) = Some y \<longrightarrow>
      (case copy_construct T y of
         Inl e \<Rightarrow>
           snd (optional_copy T this other w) = Inl (T_exception e) \<and>
           \<not> has_value this (fst (optional_copy T this other w)) \<and>
           data (objs (fst (optional_copy T this other w)) this) = None
       | Inr v \<Rightarrow>
           snd (optional_copy T this other w) = Inr () \<and>
           has_value this (fst (optional_copy T this other w)) \<and>
           data (objs (fst (optional_copy T this other w)) this) = Some v)) \<and>
   (this \<noteq> other \<and> has_value other w \<and> data (objs w other) = Some y \<longrightarrow>
      (case snd (move_construct T y) of
         Inl e \<Rightarrow>
           snd (optional_move T this other w) = Inl std_terminate \<and>
           \<not> has_value this (fst (optional_move T this other w)) \<and>
           data (objs (fst (optional_move T this other w)) this) = None
       | Inr v \<Rightarrow>
           snd (optional_move T this other w) = Inr () \<and>
           has_value this (fst (optional_move T this other w)) \<and>
           data (objs (fst (optional_move T this other w)) this) = Some v))"
proof -
  have value_copy: "\<not> has_value this w \<longrightarrow>
      (case copy_construct T val of
         Inl e \<Rightarrow> assign_value_copy T this val w = (w, Inl (T_exception e))
       | Inr v \<Rightarrow>
           snd (assign_value_copy T this val w) = Inr this \<and>
           has_value this (fst (assign_value_copy T this val w)) \<and>
           data (objs (fst (assign_value_copy T this val w)) this) = Some v)"
    by (simp add: assign_value_copy_def access_defs prim_defs split: sum.splits)
  have value_move: "\<not> has_value this w \<longrightarrow>
      (case snd (move_construct T val) of
         Inl e \<Rightarrow> assign_value_move T this val w = (w, Inl (T_exception e))
       | Inr v \<Rightarrow>
           snd (assign_value_move T this val w) = Inr this \<and>
           has_value this (fst (assign_value_move T this val w)) \<and>
           data (objs (fst (assign_value_move T this val w)) this) = Some v)"
    by (simp add: assign_value_move_def access_defs prim_defs split: sum.splits)
  have from_copy:
    "\<not> has_value this w \<and> has_value other w \<and> data (objs w other) = Some y \<longrightarrow>
      (case copy_construct T y of
         Inl e \<Rightarrow> assign_copy T this other w = (w, Inl (T_exception e))
       | Inr v \<Rightarrow>
           snd (assign_copy T this other w) = Inr this \<and>
           has_value this (fst (assign_copy T this other w)) \<and>
           data (objs (fst (assign_copy T this other w)) this) = Some v)"
    by (auto simp: assign_copy_def access_defs prim_defs split: sum.splits)
  have from_move:
    "\<not> has_value this w \<and> has_value other w \<and> data (objs w other) = Some y \<longrightarrow>
      (case snd (move_construct T y) of
         Inl e \<Rightarrow>
           snd (assign_move T this other w) = Inl (T_exception e) \<and>
           \<not> has_value this (fst (assign_move T this other w)) \<and>
           data (objs (fst (assign_move T this other w)) this) = data (objs w this)
       | Inr v \<Rightarrow>
           snd (assign_move T this other w) = Inr this \<and>
           has_value this (fst (assign_move T this other w)) \<and>
           data (objs (fst (assign_move T this other w)) this) = Some v)"
    by (auto simp: assign_move_def access_defs prim_defs split: sum.splits prod.splits)
  have ctor_copy:
    "this \<noteq> other \<and> has_value other w \<and> data (objs w other) = Some y \<longrightarrow>
      (case copy_construct T y of
         Inl e \<Rightarrow>
           snd (optional_copy T this other w) = Inl (T_exception e) \<and>
           \<not> has_value this (fst (optional_copy T this other w)) \<and>
           data (objs (fst (optional_copy T this other w)) this) = None
       | Inr v \<Rightarrow>
           snd (optional_copy T this other w) = Inr () \<and>
           has_value this (fst (optional_copy T this other w)) \<and>
           data (objs (fst (optional_copy T this other w)) this) = Some v)"
    by (auto simp: optional_copy_def optional_default_def access_defs prim_defs Let_def
        split: sum.splits)
  have ctor_move:
    "this \<noteq> other \<and> has_value other w \<and> data (objs w other) = Some y \<longrightarrow>
      (case snd (move_construct T y) of
         Inl e \<Rightarrow>
           snd (optional_move T this other w) = Inl std_terminate \<and>
           \<not> has_value this (fst (optional_move T this other w)) \<and>
           data (objs (fst (optional_move T this other w)) this) = None
       | Inr v \<Rightarrow>
           snd (optional_move T this other w) = Inr () \<and>
           has_value this (fst (optional_move T this other w)) \<and>
           data (objs (fst (optional_move T this other w)) this) = Some v)"
    by (auto simp: optional_move_def noexcept_def optional_default_def access_defs
        prim_defs Let_def split: sum.splits prod.splits)
  from value_copy value_move from_copy from_move ctor_copy ctor_move show ?thesis
    by blast
qed

theorem flag_set_after_construction_witness:
  "\<not> has_value 1 fragile_world \<and> has_value 0 fragile_world \<and>
   data (objs fragile_world 0) = Some 5 \<and>
   copy_construct fragile_T 5 = Inl () \<and> snd (move_construct fragile_T 5) = Inl () \<and>
   assign_value_copy fragile_T 1 5 fragile_world = (fragile_world, Inl (T_exception ())) \<and>
   assign_value_move fragile_T 1 5 fragile_world = (fragile_world, Inl (T_exception ())) \<and>
   assign_copy fragile_T 1 0 fragile_world = (fragile_world, Inl (T_exception ())) \<and>
   snd (assign_move fragile_T 1 0 fragile_world) = Inl (T_exception ()) \<and>
   \<not> has_value 1 (fst (assign_move fragile_T 1 0 fragile_world)) \<and>
   snd (optional_copy fragile_T 1 0 fragile_world) = Inl (T_exception ()) \<and>
   \<not> has_value 1 (fst (optional_copy fragile_T 1 0 fragile_world)) \<and>
   snd (optional_move fragile_T 1 0 fragile_world) = Inl std_terminate \<and>
   \<not> has_value 1 (fst (optional_move fragile_T 1 0 fragile_world)) \<and>
   \<not> has_value 1 vector_world \<and> has_value 0 vector_world \<and>
   data (objs vector_world 0) = Some [1, 2, 3] \<and>
   copy_construct vector_T [4] = Inr [4] \<and>
   has_value 1 (fst (assign_value_copy vector_T 1 [4] vector_world)) \<and>
   data (objs (fst (assign_value_copy vector_T 1 [4] vector_world)) 1) = Some [4] \<and>
   has_value 1 (fst (assign_copy vector_T 1 0 vector_world)) \<and>
   data (objs (fst (assign_copy vector_T 1 0 vector_world)) 1) = Some [1, 2, 3] \<and>
   has_value 1 (fst (optional_move vector_T 1 0 vector_world)) \<and>
   data (objs (fst (optional_move vector_T 1 0 vector_world)) 1) = Some [1, 2, 3]"
proof -
  have pre: "\<not> has_value 1 fragile_world" "has_value 0 fragile_world"
      "data (objs fragile_world 0) = Some 5" "(1::nat) \<noteq> 0"
    by (simp_all add: example_defs has_value_def prim_defs)
  have throws: "copy_construct fragile_T 5 = Inl ()" "snd (move_construct fragile_T 5) = Inl ()"
    by (simp_all add: fragile_T_def)
  have pre': "\<not> has_value 1 vector_world" "has_value 0 vector_world"
      "data (objs vector_world 0) = Some [1, 2, 3]"
    by (simp_all add: example_defs has_value_def prim_defs)
  have returns: "copy_construct vector_T [4] = Inr [4]"
      "copy_construct vector_T [1, 2, 3] = Inr [1, 2, 3]"
      "snd (move_construct vector_T [1, 2, 3]) = Inr [1, 2, 3]"
    by (simp_all add: vector_T_def)
  from flag_set_after_construction
      [where T = fragile_T and this = 1 and other = 0 and w = fragile_world
         and val = 5 and y = 5]
    flag_set_after_construction
      [where T = vector_T and this = 1 and other = 0 and w = vector_world
         and val = "[4]" and y = "[1, 2, 3]"]
    pre throws pre' returns
  show ?thesis by simp
qed

text \<open>
  \<^verbatim>\<open>emplace\<close> writes the flag before the placement construction too, and there the
  container outlives the exception: whenever \<^verbatim>\<open>T(args...)\<close> throws, \<^verbatim>\<open>emplace\<close> ends
  with the flag set and no object in the storage.
\<close>

lemma emplace_throw_flag_set:
  "construct T args = Inl e \<Longrightarrow> invariant (objs w this) \<Longrightarrow>
   snd (emplace T this args w) = Inl (T_exception e) \<and>
   has_value this (fst (emplace T this args w)) \<and>
   data (objs (fst (emplace T this args w)) this) = None"
  by (auto simp: emplace_def reset_def invariant_def has_value_def prim_defs split: option.splits)

text \<open>
  C3 says that a constructor of \<open>T\<close> throwing during \<^verbatim>\<open>emplace(args...)\<close> leaves the
  container disengaged. The code leaves \<^verbatim>\<open>has_value()\<close> true, from either prior
  state: here \<^verbatim>\<open>T(-1)\<close> throws, on a disengaged container and on one holding 5.
\<close>

theorem emplace_throw_leaves_flag_set:
  "\<not> has_value 0 (empty_world :: int world) \<and>
   snd (emplace fragile_T 0 (- 1) empty_world) = Inl (T_exception ()) \<and>
   has_value 0 (fst (emplace fragile_T 0 (- 1) empty_world)) \<and>
   has_value 0 fragile_world \<and>
   snd (emplace fragile_T 0 (- 1) fragile_world) = Inl (T_exception ()) \<and>
   has_value 0 (fst (emplace fragile_T 0 (- 1) fragile_world))"
  by (simp add: example_defs reset_def has_value_def prim_defs)

subsection \<open>The invariant\<close>

text \<open>
  Every member function but \<^verbatim>\<open>emplace\<close> keeps the invariant, for every container in
  the world, whether it returns or ends abruptly; \<^verbatim>\<open>emplace\<close> and the value
  constructors keep it when \<open>T\<close>'s constructor returns. (A value constructor that throws
  leaves no container behind, and the destructor ends the container's lifetime.)
\<close>

lemma reset_invariant:
  "\<forall>p. invariant (objs w p) \<Longrightarrow> \<forall>p. invariant (objs (fst (reset this w)) p)"
  by (auto simp: reset_def invariant_def prim_defs split: option.splits)

lemma emplace_invariant:
  "\<forall>p. invariant (objs w p) \<Longrightarrow> construct T args = Inr v \<Longrightarrow>
   \<forall>p. invariant (objs (fst (emplace T this args w)) p)"
  by (auto simp: emplace_def reset_def invariant_def prim_defs split: option.splits)

lemma optional_default_invariant:
  "\<forall>p. invariant (objs w p) \<Longrightarrow> \<forall>p. invariant (objs (optional_default this w) p)"
  by (auto simp: optional_default_def invariant_def)

lemma optional_copy_invariant:
  "\<forall>p. invariant (objs w p) \<Longrightarrow> \<forall>p. invariant (objs (fst (optional_copy T this other w)) p)"
  by (auto simp: optional_copy_def optional_default_def invariant_def access_defs
      prim_defs Let_def split: option.splits sum.splits)

lemma optional_move_invariant:
  "\<forall>p. invariant (objs w p) \<Longrightarrow> \<forall>p. invariant (objs (fst (optional_move T this other w)) p)"
  by (auto simp: optional_move_def noexcept_def optional_default_def invariant_def access_defs
      prim_defs Let_def split: option.splits sum.splits prod.splits)

lemma optional_of_copy_invariant:
  "\<forall>p. invariant (objs w p) \<Longrightarrow> list_construct T val = Inr v \<Longrightarrow>
   \<forall>p. invariant (objs (fst (optional_of_copy T this val w)) p)"
  by (auto simp: optional_of_copy_def optional_default_def invariant_def prim_defs Let_def)

lemma optional_of_move_invariant:
  "\<forall>p. invariant (objs w p) \<Longrightarrow> snd (move_construct T val) = Inr v \<Longrightarrow>
   \<forall>p. invariant (objs (fst (optional_of_move T this val w)) p)"
  by (auto simp: optional_of_move_def optional_default_def invariant_def prim_defs Let_def)

lemma assign_value_copy_invariant:
  "\<forall>p. invariant (objs w p) \<Longrightarrow>
   \<forall>p. invariant (objs (fst (assign_value_copy T this val w)) p)"
  by (auto simp: assign_value_copy_def invariant_def access_defs prim_defs
      split: option.splits sum.splits prod.splits)

lemma assign_value_move_invariant:
  "\<forall>p. invariant (objs w p) \<Longrightarrow>
   \<forall>p. invariant (objs (fst (assign_value_move T this val w)) p)"
  by (auto simp: assign_value_move_def invariant_def access_defs prim_defs
      split: option.splits sum.splits prod.splits)

lemma assign_copy_invariant:
  "\<forall>p. invariant (objs w p) \<Longrightarrow> \<forall>p. invariant (objs (fst (assign_copy T this other w)) p)"
  by (auto simp: assign_copy_def reset_def invariant_def access_defs prim_defs
      split: option.splits sum.splits prod.splits)

lemma assign_move_invariant:
  "\<forall>p. invariant (objs w p) \<Longrightarrow> \<forall>p. invariant (objs (fst (assign_move T this other w)) p)"
  by (auto simp: assign_move_def reset_def invariant_def access_defs prim_defs
      split: option.splits sum.splits prod.splits)

text \<open>
  C2 says that every public operation preserves the invariant. \<^verbatim>\<open>emplace\<close> does not
  when \<open>T\<close>'s constructor throws: from a container that satisfies the invariant
  (holding 5), \<^verbatim>\<open>emplace(-1)\<close> ends with the flag set and no live object in the
  storage, while \<^verbatim>\<open>emplace(5)\<close>, which does not throw, preserves it.
\<close>

theorem emplace_throw_breaks_invariant:
  "invariant (objs fragile_world 0) \<and>
   invariant (objs (fst (emplace fragile_T 0 5 fragile_world)) 0) \<and>
   is_initialized (objs (fst (emplace fragile_T 0 (- 1) fragile_world)) 0) \<and>
   data (objs (fst (emplace fragile_T 0 (- 1) fragile_world)) 0) = None \<and>
   \<not> invariant (objs (fst (emplace fragile_T 0 (- 1) fragile_world)) 0)"
  by (simp add: example_defs reset_def invariant_def prim_defs)

subsection \<open>Self-assignment\<close>

text \<open>
  Copy assignment compares the addresses first and does nothing when they are equal.
  Move assignment has no such test: disengaged, none of its branches is taken; engaged,
  it calls \<open>T\<close>'s move assignment on the contained object with itself.
\<close>

lemma assign_copy_self: "assign_copy T this this w = (w, Inr this)"
  by (simp add: assign_copy_def)

lemma assign_move_self_disengaged:
  "\<not> has_value this w \<Longrightarrow> assign_move T this this w = (w, Inr this)"
  by (simp add: assign_move_def has_value_def and_then_def)

lemma assign_move_self_engaged:
  "has_value this w \<Longrightarrow> data (objs w this) = Some x \<Longrightarrow>
   assign_move T this this w =
     (store (Data this) (fst (move_assign_self T x)) w,
      case snd (move_assign_self T x) of None \<Rightarrow> Inr this | Some e \<Rightarrow> Inl (T_exception e))"
  by (auto simp: assign_move_def access_defs prim_defs split: prod.splits option.splits)

text \<open>
  C5 says that self-assignment through either optional-to-optional assignment operator
  leaves engagement and contained value unchanged, for every \<open>T\<close>. With the vector type,
  whose move assignment applied to itself leaves the object empty,
  \<^verbatim>\<open>a = std::move(a)\<close> on a container holding \<open>[1, 2, 3]\<close> leaves it holding \<open>[]\<close>.
\<close>

theorem self_move_assignment_changes_value:
  "has_value 0 vector_world \<and>
   data (objs vector_world 0) = Some [1, 2, 3] \<and>
   snd (assign_move vector_T 0 0 vector_world) = Inr 0 \<and>
   has_value 0 (fst (assign_move vector_T 0 0 vector_world)) \<and>
   data (objs (fst (assign_move vector_T 0 0 vector_world)) 0) = Some []"
  by (simp add: assign_move_def example_defs access_defs prim_defs)

end
